theory Spec2Isabelle
  imports Complex_Main
begin

section \<open>The Brook StandardMM force-field kernel\<close>

text \<open>
  A shallow embedding of \<^verbatim>\<open>platforms/brook/src/BrookCalcStandardMMForceFieldKernel.cpp\<close>.
  The file is an adapter: it owns two delegate objects (\<^verbatim>\<open>BrookBonded\<close>,
  \<^verbatim>\<open>BrookNonBonded\<close>), forwards the force-field tables to their \<^verbatim>\<open>setup\<close> methods and,
  at every step, issues a fixed sequence of Brook stream kernels. The delegates and the
  stream kernels are defined elsewhere; they enter the model as the fields of an
  environment record, and the gather kernels are modelled from the specification.
\<close>

subsection \<open>Streams\<close>

text \<open>
  A force-like stream (the output force stream, a partial-force buffer) maps an element
  index to a value of type \<open>'v\<close>, the three-vector of the source. Only its additive structure
  is used. All other stream contents (positions, charges, parameters) are of an opaque
  type \<open>'s\<close>: this file only hands them on to the kernels.
\<close>

type_synonym 'v fstream = "nat \<Rightarrow> 'v"

text \<open>An inverse-map index stream gives, per atom, a lane of a partial-force buffer or the sentinel.\<close>

datatype map_entry = Lane nat | Sentinel

type_synonym imap = "nat \<Rightarrow> map_entry"

text \<open>
  The \<^verbatim>\<open>Stream\<close> arguments of the kernel interface. \<^verbatim>\<open>executeForces\<close> casts their
  implementation to \<^verbatim>\<open>BrookStreamImpl&\<close> with \<^verbatim>\<open>dynamic_cast\<close>, which throws for a
  stream of another platform.
\<close>

datatype 'c Stream = BrookStream 'c | ForeignStream

text \<open>A \<^verbatim>\<open>FILE*\<close> is a handle or \<^verbatim>\<open>NULL\<close>.\<close>

type_synonym FILE_ptr = "nat option"

record Platform =
  platform_log :: FILE_ptr

text \<open>The role constants of \<^verbatim>\<open>executeForces\<close>.\<close>

definition I_Stream :: nat where "I_Stream = 0"
definition J_Stream :: nat where "J_Stream = 1"
definition K_Stream :: nat where "K_Stream = 2"
definition L_Stream :: nat where "L_Stream = 3"

subsection \<open>The delegates, as far as this file observes them\<close>

record ('v, 's) BrookBonded =
  bonded_log :: FILE_ptr
  inverseMapStreamCount :: "nat \<Rightarrow> int"
  LJ_14Scale :: real
  coulombFactor :: real
  inverseMapStreamWidth :: int
  bonded_chargeStream :: 's
  atomIndicesStream :: 's
  bondedParameterStreams :: "nat \<Rightarrow> 's"
  bondedForceStreams :: "nat \<Rightarrow> 'v fstream"
  bondedForceStreamWidth :: int
  inverseStreamMapsStreams :: "nat \<Rightarrow> nat \<Rightarrow> imap"

record ('v, 's) BrookNonBonded =
  nonbonded_log :: FILE_ptr
  nb_numberOfAtoms :: int
  atomSizeCeiling :: int
  duplicationFactor :: int
  atomStreamHeight :: int
  atomStreamWidth :: int
  jStreamWidth :: int
  partialForceStreamWidth :: int
  outerLoopUnroll :: int
  nb_chargeStream :: 's
  outerVdwStream :: 's
  innerSigmaStream :: 's
  innerEpsilonStream :: 's
  exclusionStream :: 's
  forceStreams :: "nat \<Rightarrow> 'v fstream"

subsection \<open>The kernel object\<close>

text \<open>
  The members \<^verbatim>\<open>_numberOfAtoms\<close>, \<^verbatim>\<open>_brookBonded\<close>, \<^verbatim>\<open>_brookNonBonded\<close>, \<^verbatim>\<open>_log\<close> and the
  platform the kernel was created for. A delegate pointer is \<open>None\<close> while it is \<^verbatim>\<open>NULL\<close>;
  the kernel is the only owner of the objects it points to. The declared type of
  \<^verbatim>\<open>_numberOfAtoms\<close> is in the class header; the count is a \<open>nat\<close> here.
\<close>

record ('v, 's) kernel =
  numberOfAtoms :: nat
  brookBonded :: "('v, 's) BrookBonded option"
  brookNonBonded :: "('v, 's) BrookNonBonded option"
  log :: FILE_ptr
  platform :: Platform

text \<open>The arguments of \<^verbatim>\<open>initialize\<close>; \<open>'m\<close> is the \<^verbatim>\<open>NonbondedMethod\<close> enumeration.\<close>

record 'm init_args =
  bondIndices :: "int list list"
  bondParameters :: "real list list"
  angleIndices :: "int list list"
  angleParameters :: "real list list"
  periodicTorsionIndices :: "int list list"
  periodicTorsionParameters :: "real list list"
  rbTorsionIndices :: "int list list"
  rbTorsionParameters :: "real list list"
  bonded14Indices :: "int list list"
  lj14Scale :: real
  coulomb14Scale :: real
  exclusions :: "int set list"
  nonbondedParameters :: "real list list"
  nonbondedMethod :: 'm
  nonbondedCutoff :: real
  periodicBoxSize :: "real \<times> real \<times> real"

subsection \<open>The environment: code defined outside this file\<close>

type_synonym float4 = "real \<times> real \<times> real \<times> real"

text \<open>
  Modelled from the spec: the constructors, \<^verbatim>\<open>setup\<close> and \<^verbatim>\<open>getContentsString\<close> methods of
  the two delegates, the two force evaluators \<^verbatim>\<open>knbforce_CDLJ4\<close> and \<^verbatim>\<open>kbonded_CDLJ\<close> and the
  merge kernel \<^verbatim>\<open>kMergeFloat3_4_nobranch\<close> are not in this file and are left open. A stream
  kernel computes the streams it writes from its scalar arguments and the streams it
  reads: an evaluator produces its partial-force buffers fresh at every evaluation. The
  argument lists are those of the calls in \<^verbatim>\<open>executeForces\<close>, scalars first, then the
  streams read, in call order; the result is the content of the streams written (for an
  evaluator the four partial buffers, by their index). The call of the merge kernel names
  the four partial nonbonded force streams and then, once and last, the force stream, the
  stream it writes; the gathers name the force stream twice, as the stream they read and
  as the stream they write. The merge kernel therefore has the four partial streams as
  its only stream inputs. Failures inside this code are not modelled.
\<close>

record ('v, 's) env =
  BrookBonded_new :: "('v, 's) BrookBonded"
  BrookBonded_setup ::
    "nat \<Rightarrow> int list list \<Rightarrow> real list list \<Rightarrow> int list list \<Rightarrow> real list list \<Rightarrow>
     int list list \<Rightarrow> real list list \<Rightarrow> int list list \<Rightarrow> real list list \<Rightarrow>
     int list list \<Rightarrow> real list list \<Rightarrow> real \<Rightarrow> real \<Rightarrow> Platform \<Rightarrow>
     ('v, 's) BrookBonded \<Rightarrow> ('v, 's) BrookBonded"
  BrookBonded_getContentsString :: "('v, 's) BrookBonded \<Rightarrow> string"
  BrookNonBonded_new :: "('v, 's) BrookNonBonded"
  BrookNonBonded_setup ::
    "nat \<Rightarrow> real list list \<Rightarrow> int set list \<Rightarrow> Platform \<Rightarrow>
     ('v, 's) BrookNonBonded \<Rightarrow> ('v, 's) BrookNonBonded"
  BrookNonBonded_getContentsString :: "('v, 's) BrookNonBonded \<Rightarrow> string"
  knbforce_CDLJ4 :: "real list \<Rightarrow> float4 \<Rightarrow> 's list \<Rightarrow> nat \<Rightarrow> 'v fstream"
  kMergeFloat3_4_nobranch ::
    "real list \<Rightarrow> 'v fstream \<Rightarrow> 'v fstream \<Rightarrow> 'v fstream \<Rightarrow> 'v fstream \<Rightarrow> 'v fstream"
  kbonded_CDLJ :: "real \<Rightarrow> real \<Rightarrow> float4 \<Rightarrow> 's list \<Rightarrow> nat \<Rightarrow> 'v fstream"

subsection \<open>Constructor and log accessors\<close>

definition getLog :: "('v, 's) kernel \<Rightarrow> FILE_ptr" where
  "getLog k = log k"

definition setLog :: "FILE_ptr \<Rightarrow> ('v, 's) kernel \<Rightarrow> ('v, 's) kernel" where
  "setLog l k = k\<lparr>log := l\<rparr>"

text \<open>
  The constructor clears the atom count and both delegate pointers and takes over the
  platform's log when it has one. The member \<^verbatim>\<open>_log\<close> has no initialiser in this file;
  \<open>log0\<close> is its value before the constructor body runs.
\<close>

definition BrookCalcStandardMMForceFieldKernel :: "FILE_ptr \<Rightarrow> Platform \<Rightarrow> ('v, 's) kernel" where
  "BrookCalcStandardMMForceFieldKernel log0 pf =
     (let k = \<lparr>numberOfAtoms = 0, brookBonded = None, brookNonBonded = None,
               log = log0, platform = pf\<rparr>
      in if platform_log pf \<noteq> None then setLog (platform_log pf) k else k)"

subsection \<open>initialize\<close>

text \<open>
  What \<^verbatim>\<open>initialize\<close> does to the heap and to the log, in program order: \<^verbatim>\<open>delete\<close> of
  a delegate (with the object released), \<^verbatim>\<open>new\<close>, the \<^verbatim>\<open>setup\<close> call with the atom count it
  is given, and \<^verbatim>\<open>fprintf\<close> to a log handle.
\<close>

datatype ('v, 's) effect =
    Delete_BrookBonded "('v, 's) BrookBonded"
  | New_BrookBonded
  | Setup_BrookBonded nat
  | Delete_BrookNonBonded "('v, 's) BrookNonBonded"
  | New_BrookNonBonded
  | Setup_BrookNonBonded nat
  | Fprintf nat string

definition initialize_methodName :: string where
  "initialize_methodName = ''BrookCalcStandardMMForceFieldKernel::initialize''"

text \<open>
  \<^verbatim>\<open>initialize\<close> returns the kernel after the call and the effects of the call. The
  delegates' \<^verbatim>\<open>setLog\<close> stores the handle in the delegate. \<^verbatim>\<open>nonbondedMethod\<close>,
  \<^verbatim>\<open>nonbondedCutoff\<close> and \<^verbatim>\<open>periodicBoxSize\<close> do not occur in the body.
\<close>

definition initialize ::
  "('v, 's) env \<Rightarrow> 'm init_args \<Rightarrow> ('v, 's) kernel \<Rightarrow> ('v, 's) kernel \<times> ('v, 's) effect list" where
  "initialize env a k =
     (let lg = getLog k;
          k1 = k\<lparr>numberOfAtoms := length (nonbondedParameters a)\<rparr>;
          del_b = (case brookBonded k1 of Some old \<Rightarrow> [Delete_BrookBonded old] | None \<Rightarrow> []);
          b0 = (BrookBonded_new env)\<lparr>bonded_log := lg\<rparr>;
          b = BrookBonded_setup env (numberOfAtoms k1)
                (bondIndices a) (bondParameters a)
                (angleIndices a) (angleParameters a)
                (periodicTorsionIndices a) (periodicTorsionParameters a)
                (rbTorsionIndices a) (rbTorsionParameters a)
                (bonded14Indices a) (nonbondedParameters a)
                (lj14Scale a) (coulomb14Scale a) (platform k1) b0;
          k2 = k1\<lparr>brookBonded := Some b\<rparr>;
          echo_b = (case lg of
                      Some f \<Rightarrow> [Fprintf f (initialize_methodName @ '' brookBonded::contents'' @
                                           [CHR 0x0A] @ BrookBonded_getContentsString env b)]
                    | None \<Rightarrow> []);
          del_n = (case brookNonBonded k2 of Some old \<Rightarrow> [Delete_BrookNonBonded old] | None \<Rightarrow> []);
          n0 = (BrookNonBonded_new env)\<lparr>nonbonded_log := lg\<rparr>;
          n = BrookNonBonded_setup env (numberOfAtoms k2) (nonbondedParameters a) (exclusions a)
                (platform k2) n0;
          k3 = k2\<lparr>brookNonBonded := Some n\<rparr>;
          echo_n = (case lg of
                      Some f \<Rightarrow> [Fprintf f (initialize_methodName @ '' brookNonBonded::contents'' @
                                           [CHR 0x0A] @ BrookNonBonded_getContentsString env n)]
                    | None \<Rightarrow> [])
      in (k3, del_b @ [New_BrookBonded, Setup_BrookBonded (numberOfAtoms k1)] @ echo_b @
              del_n @ [New_BrookNonBonded, Setup_BrookNonBonded (numberOfAtoms k2)] @ echo_n))"

subsection \<open>The gather kernels\<close>

text \<open>
  \<^verbatim>\<open>kinvmap_gather3_4\<close>, \<^verbatim>\<open>kinvmap_gather3_5\<close> and \<^verbatim>\<open>kinvmap_gather5_2\<close> are Brook kernels
  whose code is not in this file; what they compute is taken from the specification.
\<close>

text \<open>
  Modelled from the spec: an entry of an inverse map is a valid lane index, which selects
  the partial force in that lane, or the sentinel, which resolves to a zero contribution.
\<close>

fun entry_force :: "'v::zero fstream \<Rightarrow> map_entry \<Rightarrow> 'v" where
  "entry_force buf (Lane l) = buf l"
| "entry_force buf Sentinel = 0"

text \<open>
  Modelled from the spec: a role's share of the force on atom \<open>a\<close> is the sum, over the
  role's parallel index streams, of what their entries at \<open>a\<close> select.
\<close>

definition role_sum :: "imap list \<Rightarrow> 'v::monoid_add fstream \<Rightarrow> nat \<Rightarrow> 'v" where
  "role_sum maps buf a = sum_list (map (\<lambda>m. entry_force buf (m a)) maps)"

text \<open>
  Modelled from the spec: the gather of a role pair adds, for every atom, the shares of
  role A and of role B into the atom's existing output force entry.
\<close>

definition gatherPair ::
  "imap list \<Rightarrow> 'v::monoid_add fstream \<Rightarrow> imap list \<Rightarrow> 'v fstream \<Rightarrow> 'v fstream \<Rightarrow> 'v fstream" where
  "gatherPair mapsA bufA mapsB bufB fin = (\<lambda>a. fin a + (role_sum mapsA bufA a + role_sum mapsB bufB a))"

text \<open>
  Modelled from the spec: the three fixed shapes of the gather, with 3 and 4, 3 and 5,
  5 and 2 index streams. The last two arguments of each call in \<^verbatim>\<open>executeForces\<close> are the
  force stream as read and the force stream as written; \<open>fin\<close> is the former and the result
  is the latter. The \<^verbatim>\<open>width\<close> argument lays the lanes out in two dimensions; lanes are
  plain indices here.
\<close>

definition kinvmap_gather3_4 ::
  "real \<Rightarrow> imap \<Rightarrow> imap \<Rightarrow> imap \<Rightarrow> 'v::monoid_add fstream \<Rightarrow>
   imap \<Rightarrow> imap \<Rightarrow> imap \<Rightarrow> imap \<Rightarrow> 'v fstream \<Rightarrow> 'v fstream \<Rightarrow> 'v fstream" where
  "kinvmap_gather3_4 width i0 i1 i2 fi k0 k1 k2 k3 fk fin =
     gatherPair [i0, i1, i2] fi [k0, k1, k2, k3] fk fin"

definition kinvmap_gather3_5 ::
  "real \<Rightarrow> imap \<Rightarrow> imap \<Rightarrow> imap \<Rightarrow> 'v::monoid_add fstream \<Rightarrow>
   imap \<Rightarrow> imap \<Rightarrow> imap \<Rightarrow> imap \<Rightarrow> imap \<Rightarrow> 'v fstream \<Rightarrow> 'v fstream \<Rightarrow> 'v fstream" where
  "kinvmap_gather3_5 width i0 i1 i2 fi k0 k1 k2 k3 k4 fk fin =
     gatherPair [i0, i1, i2] fi [k0, k1, k2, k3, k4] fk fin"

definition kinvmap_gather5_2 ::
  "real \<Rightarrow> imap \<Rightarrow> imap \<Rightarrow> imap \<Rightarrow> imap \<Rightarrow> imap \<Rightarrow> 'v::monoid_add fstream \<Rightarrow>
   imap \<Rightarrow> imap \<Rightarrow> 'v fstream \<Rightarrow> 'v fstream \<Rightarrow> 'v fstream" where
  "kinvmap_gather5_2 width j0 j1 j2 j3 j4 fj l0 l1 fl fin =
     gatherPair [j0, j1, j2, j3, j4] fj [l0, l1] fl fin"

text \<open>
  The specification's statement of the gather's effect, to compare \<open>role_sum\<close> with: the
  sum of the partial forces indicated by the valid entries only.
\<close>

fun lanes_of :: "map_entry list \<Rightarrow> nat list" where
  "lanes_of [] = []"
| "lanes_of (Lane l # es) = l # lanes_of es"
| "lanes_of (Sentinel # es) = lanes_of es"

definition valid_sum :: "imap list \<Rightarrow> 'v::monoid_add fstream \<Rightarrow> nat \<Rightarrow> 'v" where
  "valid_sum maps buf a = sum_list (map buf (lanes_of (map (\<lambda>m. m a) maps)))"

subsection \<open>executeForces\<close>

text \<open>The streams a kernel call is handed, by the name they have in the source.\<close>

datatype stream_ref =
    PositionStream
  | ForceStream
  | NB_ChargeStream
  | OuterVdwStream
  | InnerSigmaStream
  | InnerEpsilonStream
  | ExclusionStream
  | NonbondedForceStream nat
  | B_ChargeStream
  | AtomIndicesStream
  | BondedParameterStream nat
  | BondedForceStream nat
  | InverseStreamMap nat nat

datatype call = KernelCall (kernel_name: string) (stream_args: "stream_ref list")

text \<open>
  How a call can end abnormally: a failed \<^verbatim>\<open>dynamic_cast\<close> of a stream implementation,
  a member call through a \<^verbatim>\<open>NULL\<close> delegate pointer, or the \<^verbatim>\<open>OpenMMException\<close> of the
  unhandled case, with its message.
\<close>

datatype failure = BadCast | NullDelegate | OpenMMException string

text \<open>
  The outcome of \<^verbatim>\<open>executeForces\<close>: the kernel and the force argument as the call leaves
  them (also when it throws), the Brook kernels invoked, in order, what was printed to
  which log, and the failure, if any.
\<close>

record ('v, 's) exec_result =
  kernel_after :: "('v, 's) kernel"
  forces_after :: "'v fstream Stream"
  calls :: "call list"
  logged :: "(nat \<times> string) list"
  raised :: "failure option"

text \<open>\<^verbatim>\<open>operator<<\<close> on an \<^verbatim>\<open>int\<close>: decimal digits, with a minus sign when negative.\<close>

definition digit_char :: "nat \<Rightarrow> char" where
  "digit_char d = ''0123456789'' ! d"

function string_of_nat :: "nat \<Rightarrow> string" where
  "string_of_nat n =
     (if n < 10 then [digit_char n] else string_of_nat (n div 10) @ [digit_char (n mod 10)])"
  by pat_completeness auto
termination
  by (relation "measure id") auto

definition string_of_int :: "int \<Rightarrow> string" where
  "string_of_int i =
     (if i < 0 then CHR ''-'' # string_of_nat (nat (- i)) else string_of_nat (nat i))"

definition executeForces_methodName :: string where
  "executeForces_methodName = ''BrookCalcStandardMMForceFieldKernel::executeForces''"

definition dummyParameters :: float4 where
  "dummyParameters = (0, 0, 0, 0)"

text \<open>The argument lists of the five kernel calls, as written in the source.\<close>

definition knbforce_CDLJ4_call :: call where
  "knbforce_CDLJ4_call = KernelCall ''knbforce_CDLJ4''
     [PositionStream, NB_ChargeStream, OuterVdwStream, InnerSigmaStream, InnerEpsilonStream,
      ExclusionStream, NonbondedForceStream 0, NonbondedForceStream 1, NonbondedForceStream 2,
      NonbondedForceStream 3]"

definition kMergeFloat3_4_nobranch_call :: call where
  "kMergeFloat3_4_nobranch_call = KernelCall ''kMergeFloat3_4_nobranch''
     [NonbondedForceStream 0, NonbondedForceStream 1, NonbondedForceStream 2,
      NonbondedForceStream 3, ForceStream]"

definition kbonded_CDLJ_call :: call where
  "kbonded_CDLJ_call = KernelCall ''kbonded_CDLJ''
     [PositionStream, B_ChargeStream, AtomIndicesStream, BondedParameterStream 0,
      BondedParameterStream 1, BondedParameterStream 2, BondedParameterStream 3,
      BondedParameterStream 4, BondedForceStream 0, BondedForceStream 1, BondedForceStream 2,
      BondedForceStream 3]"

definition kinvmap_gather3_4_call :: call where
  "kinvmap_gather3_4_call = KernelCall ''kinvmap_gather3_4''
     [InverseStreamMap I_Stream 0, InverseStreamMap I_Stream 1, InverseStreamMap I_Stream 2,
      BondedForceStream I_Stream,
      InverseStreamMap K_Stream 0, InverseStreamMap K_Stream 1, InverseStreamMap K_Stream 2,
      InverseStreamMap K_Stream 3, BondedForceStream K_Stream,
      ForceStream, ForceStream]"

definition kinvmap_gather3_5_call :: call where
  "kinvmap_gather3_5_call = KernelCall ''kinvmap_gather3_5''
     [InverseStreamMap I_Stream 0, InverseStreamMap I_Stream 1, InverseStreamMap I_Stream 2,
      BondedForceStream I_Stream,
      InverseStreamMap K_Stream 0, InverseStreamMap K_Stream 1, InverseStreamMap K_Stream 2,
      InverseStreamMap K_Stream 3, InverseStreamMap K_Stream 4, BondedForceStream K_Stream,
      ForceStream, ForceStream]"

definition kinvmap_gather5_2_call :: call where
  "kinvmap_gather5_2_call = KernelCall ''kinvmap_gather5_2''
     [InverseStreamMap J_Stream 0, InverseStreamMap J_Stream 1, InverseStreamMap J_Stream 2,
      InverseStreamMap J_Stream 3, InverseStreamMap J_Stream 4, BondedForceStream J_Stream,
      InverseStreamMap L_Stream 0, InverseStreamMap L_Stream 1, BondedForceStream L_Stream,
      ForceStream, ForceStream]"

text \<open>
  The nonbonded part: \<^verbatim>\<open>knbforce_CDLJ4\<close> fills the four partial nonbonded force streams
  of the delegate, \<^verbatim>\<open>kMergeFloat3_4_nobranch\<close> merges them into the force stream. The result
  of \<open>nonbonded_merge\<close> is the content of the force stream after the merge.
\<close>

definition nonbonded_partial ::
  "('v, 's) env \<Rightarrow> ('v, 's) BrookNonBonded \<Rightarrow> 's \<Rightarrow> nat \<Rightarrow> 'v fstream" where
  "nonbonded_partial env nb positionStream =
     knbforce_CDLJ4 env
       [real_of_int (nb_numberOfAtoms nb), real_of_int (atomSizeCeiling nb),
        real_of_int (duplicationFactor nb), real_of_int (atomStreamHeight nb),
        real_of_int (atomStreamWidth nb), real_of_int (jStreamWidth nb),
        real_of_int (partialForceStreamWidth nb), 138.935485]
       dummyParameters
       [positionStream, nb_chargeStream nb, outerVdwStream nb, innerSigmaStream nb,
        innerEpsilonStream nb, exclusionStream nb]"

definition merge_scalars :: "('v, 's) BrookNonBonded \<Rightarrow> real list" where
  "merge_scalars nb =
     [real_of_int (duplicationFactor nb), real_of_int (atomStreamWidth nb),
      real_of_int (partialForceStreamWidth nb), real_of_int (nb_numberOfAtoms nb),
      real_of_int (atomSizeCeiling nb), real_of_int (outerLoopUnroll nb)]"

definition nonbonded_merge ::
  "('v, 's) env \<Rightarrow> ('v, 's) BrookNonBonded \<Rightarrow> (nat \<Rightarrow> 'v fstream) \<Rightarrow> 'v fstream" where
  "nonbonded_merge env nb nonbondedForceStreams =
     kMergeFloat3_4_nobranch env (merge_scalars nb)
       (nonbondedForceStreams 0) (nonbondedForceStreams 1)
       (nonbondedForceStreams 2) (nonbondedForceStreams 3)"

text \<open>The bonded term evaluator fills the four partial bonded force streams, one per role.\<close>

definition bonded_partial ::
  "('v, 's) env \<Rightarrow> ('v, 's) BrookBonded \<Rightarrow> 's \<Rightarrow> nat \<Rightarrow> 'v fstream" where
  "bonded_partial env b positionStream =
     kbonded_CDLJ env (LJ_14Scale b * coulombFactor b) (real_of_int (bondedForceStreamWidth b))
       dummyParameters
       [positionStream, bonded_chargeStream b, atomIndicesStream b,
        bondedParameterStreams b 0, bondedParameterStreams b 1, bondedParameterStreams b 2,
        bondedParameterStreams b 3, bondedParameterStreams b 4]"

text \<open>The three gathers, on the delegate's inverse maps and partial buffers.\<close>

definition gather_IK_4 :: "('v::monoid_add, 's) BrookBonded \<Rightarrow> 'v fstream \<Rightarrow> 'v fstream" where
  "gather_IK_4 b forceStream =
     kinvmap_gather3_4 (real_of_int (inverseMapStreamWidth b))
       (inverseStreamMapsStreams b I_Stream 0) (inverseStreamMapsStreams b I_Stream 1)
       (inverseStreamMapsStreams b I_Stream 2) (bondedForceStreams b I_Stream)
       (inverseStreamMapsStreams b K_Stream 0) (inverseStreamMapsStreams b K_Stream 1)
       (inverseStreamMapsStreams b K_Stream 2) (inverseStreamMapsStreams b K_Stream 3)
       (bondedForceStreams b K_Stream) forceStream"

definition gather_IK_5 :: "('v::monoid_add, 's) BrookBonded \<Rightarrow> 'v fstream \<Rightarrow> 'v fstream" where
  "gather_IK_5 b forceStream =
     kinvmap_gather3_5 (real_of_int (inverseMapStreamWidth b))
       (inverseStreamMapsStreams b I_Stream 0) (inverseStreamMapsStreams b I_Stream 1)
       (inverseStreamMapsStreams b I_Stream 2) (bondedForceStreams b I_Stream)
       (inverseStreamMapsStreams b K_Stream 0) (inverseStreamMapsStreams b K_Stream 1)
       (inverseStreamMapsStreams b K_Stream 2) (inverseStreamMapsStreams b K_Stream 3)
       (inverseStreamMapsStreams b K_Stream 4) (bondedForceStreams b K_Stream) forceStream"

definition gather_JL :: "('v::monoid_add, 's) BrookBonded \<Rightarrow> 'v fstream \<Rightarrow> 'v fstream" where
  "gather_JL b forceStream =
     kinvmap_gather5_2 (real_of_int (inverseMapStreamWidth b))
       (inverseStreamMapsStreams b J_Stream 0) (inverseStreamMapsStreams b J_Stream 1)
       (inverseStreamMapsStreams b J_Stream 2) (inverseStreamMapsStreams b J_Stream 3)
       (inverseStreamMapsStreams b J_Stream 4) (bondedForceStreams b J_Stream)
       (inverseStreamMapsStreams b L_Stream 0) (inverseStreamMapsStreams b L_Stream 1)
       (bondedForceStreams b L_Stream) forceStream"

text \<open>
  \<^verbatim>\<open>executeForces\<close>, in the order of the source: the two casts, the nonbonded kernel and
  its merge into the force stream, the bonded kernel, then the dispatch on the number
  of K inverse-map streams and the (J,L) gather. The diagnostic blocks are guarded by
  \<^verbatim>\<open>PrintOn = 0\<close> and never run. A kernel writes the streams it is given as outputs, so
  the partial buffers of the delegates change with every call. The content that the
  force stream has on entry is read by no kernel before the merge has written the stream.
\<close>

definition executeForces ::
  "('v::monoid_add, 's) env \<Rightarrow> ('v, 's) kernel \<Rightarrow> 's Stream \<Rightarrow> 'v fstream Stream \<Rightarrow>
   ('v, 's) exec_result" where
  "executeForces env k positions forces =
     (case positions of
        ForeignStream \<Rightarrow>
          \<lparr>kernel_after = k, forces_after = forces, calls = [], logged = [],
           raised = Some BadCast\<rparr>
      | BrookStream positionStream \<Rightarrow>
     (case forces of
        ForeignStream \<Rightarrow>
          \<lparr>kernel_after = k, forces_after = forces, calls = [], logged = [],
           raised = Some BadCast\<rparr>
      | BrookStream forceStream \<Rightarrow>
     (case brookNonBonded k of
        None \<Rightarrow>
          \<lparr>kernel_after = k, forces_after = forces, calls = [], logged = [],
           raised = Some NullDelegate\<rparr>
      | Some nb \<Rightarrow>
     (let nonbondedForceStreams = nonbonded_partial env nb positionStream;
          nb' = nb\<lparr>forceStreams := nonbondedForceStreams\<rparr>;
          k1 = k\<lparr>brookNonBonded := Some nb'\<rparr>;
          force1 = nonbonded_merge env nb' nonbondedForceStreams
      in
     (case brookBonded k1 of
        None \<Rightarrow>
          \<lparr>kernel_after = k1, forces_after = BrookStream force1,
           calls = [knbforce_CDLJ4_call, kMergeFloat3_4_nobranch_call], logged = [],
           raised = Some NullDelegate\<rparr>
      | Some b \<Rightarrow>
     (let b' = b\<lparr>bondedForceStreams := bonded_partial env b positionStream\<rparr>;
          k2 = k1\<lparr>brookBonded := Some b'\<rparr>
      in
        if inverseMapStreamCount b' K_Stream \<le> 4 then
          \<lparr>kernel_after = k2,
           forces_after = BrookStream (gather_JL b' (gather_IK_4 b' force1)),
           calls = [knbforce_CDLJ4_call, kMergeFloat3_4_nobranch_call, kbonded_CDLJ_call,
                    kinvmap_gather3_4_call, kinvmap_gather5_2_call],
           logged = [], raised = None\<rparr>
        else if inverseMapStreamCount b' K_Stream = 5 then
          \<lparr>kernel_after = k2,
           forces_after = BrookStream (gather_JL b' (gather_IK_5 b' force1)),
           calls = [knbforce_CDLJ4_call, kMergeFloat3_4_nobranch_call, kbonded_CDLJ_call,
                    kinvmap_gather3_5_call, kinvmap_gather5_2_call],
           logged = [], raised = None\<rparr>
        else
          \<lparr>kernel_after = k2, forces_after = BrookStream force1,
           calls = [knbforce_CDLJ4_call, kMergeFloat3_4_nobranch_call, kbonded_CDLJ_call],
           logged = (case bonded_log b' of
                       Some f \<Rightarrow> [(f, executeForces_methodName @ '' nkmaps='' @
                                     string_of_int (inverseMapStreamCount b' K_Stream) @
                                     '' -- not handled.'')]
                     | None \<Rightarrow> []),
           raised = Some (OpenMMException
                      (executeForces_methodName @ ''K-maps='' @
                       string_of_int (inverseMapStreamCount b' K_Stream) @
                       '' not handled.''))\<rparr>))))))"

subsection \<open>executeEnergy\<close>

text \<open>The body is \<^verbatim>\<open>return 0.0;\<close>: no kernel is invoked and no member is touched.\<close>

definition executeEnergy :: "('v, 's) kernel \<Rightarrow> 's Stream \<Rightarrow> real" where
  "executeEnergy k positions = 0.0"

subsection \<open>Reading the effects and the calls\<close>

text \<open>The heap effects of a trace, and its \<^verbatim>\<open>setup\<close> calls.\<close>

fun heap_effect :: "('v, 's) effect \<Rightarrow> bool" where
  "heap_effect (Delete_BrookBonded _) = True"
| "heap_effect New_BrookBonded = True"
| "heap_effect (Delete_BrookNonBonded _) = True"
| "heap_effect New_BrookNonBonded = True"
| "heap_effect _ = False"

fun setup_effect :: "('v, 's) effect \<Rightarrow> bool" where
  "setup_effect (Setup_BrookBonded _) = True"
| "setup_effect (Setup_BrookNonBonded _) = True"
| "setup_effect _ = False"

text \<open>
  In every call of \<^verbatim>\<open>executeForces\<close> that takes the force stream, it is the last
  argument, the stream the kernel writes; the gathers take it a second time just before,
  as the stream they read.
\<close>

definition destination :: "call \<Rightarrow> stream_ref" where
  "destination c = last (stream_args c)"

definition accumulates_into :: "call \<Rightarrow> stream_ref \<Rightarrow> bool" where
  "accumulates_into c s = (2 \<le> length (stream_args c) \<and> drop (length (stream_args c) - 2) (stream_args c) = [s, s])"

definition IK_gather :: "call \<Rightarrow> bool" where
  "IK_gather c = (kernel_name c = ''kinvmap_gather3_4'' \<or> kernel_name c = ''kinvmap_gather3_5'')"

definition bonded_gather :: "call \<Rightarrow> bool" where
  "bonded_gather c = (IK_gather c \<or> kernel_name c = ''kinvmap_gather5_2'')"

subsection \<open>A small configuration\<close>

text \<open>
  A concrete environment over integer forces, on which the theorems below are exercised.
  Its bonded \<^verbatim>\<open>setup\<close> reports as many K inverse-map streams as there are atoms and nine
  streams for each other role; atoms 0 and 1 have a valid lane in the first index stream of
  every role and in the fifth index stream of role K, and every other entry is the
  sentinel. Each partial bonded buffer holds ten times the role number plus
  ten in every lane, the first partial nonbonded stream holds 1 for every atom, and the
  merge kernel writes the sum of the four partial nonbonded streams.
\<close>

definition example_bonded_new :: "(int, unit) BrookBonded" where
  "example_bonded_new =
     \<lparr>bonded_log = None, inverseMapStreamCount = (\<lambda>r. 0), LJ_14Scale = 0, coulombFactor = 0,
      inverseMapStreamWidth = 0, bonded_chargeStream = (), atomIndicesStream = (),
      bondedParameterStreams = (\<lambda>i. ()), bondedForceStreams = (\<lambda>r l. 0),
      bondedForceStreamWidth = 0, inverseStreamMapsStreams = (\<lambda>r s a. Sentinel)\<rparr>"

definition example_nonbonded_new :: "(int, unit) BrookNonBonded" where
  "example_nonbonded_new =
     \<lparr>nonbonded_log = None, nb_numberOfAtoms = 0, atomSizeCeiling = 0, duplicationFactor = 0,
      atomStreamHeight = 0, atomStreamWidth = 0, jStreamWidth = 0, partialForceStreamWidth = 0,
      outerLoopUnroll = 0, nb_chargeStream = (), outerVdwStream = (), innerSigmaStream = (),
      innerEpsilonStream = (), exclusionStream = (), forceStreams = (\<lambda>i a. 0)\<rparr>"

definition example_env :: "(int, unit) env" where
  "example_env =
     \<lparr>BrookBonded_new = example_bonded_new,
      BrookBonded_setup = (\<lambda>n bi bp ai ap ti tp ri rp b14 nbp lj c14 pf b.
         b\<lparr>inverseMapStreamCount := (\<lambda>r. if r = K_Stream then int n else 9),
           LJ_14Scale := lj, coulombFactor := 1,
           inverseStreamMapsStreams :=
             (\<lambda>r s a. if (s = 0 \<or> r = K_Stream \<and> s = 4) \<and> a < 2 then Lane a else Sentinel)\<rparr>),
      BrookBonded_getContentsString = (\<lambda>b. ''bonded''),
      BrookNonBonded_new = example_nonbonded_new,
      BrookNonBonded_setup = (\<lambda>n nbp ex pf nb. nb\<lparr>nb_numberOfAtoms := int n\<rparr>),
      BrookNonBonded_getContentsString = (\<lambda>nb. ''nonbonded''),
      knbforce_CDLJ4 = (\<lambda>scalars d ins i a. if i = 0 then 1 else 0),
      kMergeFloat3_4_nobranch = (\<lambda>scalars f0 f1 f2 f3 a. f0 a + f1 a + f2 a + f3 a),
      kbonded_CDLJ = (\<lambda>eps w d ins r l. 10 * int r + 10)\<rparr>"

definition example_args :: "nat \<Rightarrow> unit init_args" where
  "example_args n =
     \<lparr>bondIndices = [[0, 1]], bondParameters = [[1, 2]],
      angleIndices = [[0, 1, 2]], angleParameters = [[1, 2]],
      periodicTorsionIndices = [], periodicTorsionParameters = [],
      rbTorsionIndices = [], rbTorsionParameters = [],
      bonded14Indices = [], lj14Scale = 1, coulomb14Scale = 1,
      exclusions = replicate n {}, nonbondedParameters = replicate n [0, 1, 1],
      nonbondedMethod = (), nonbondedCutoff = 1, periodicBoxSize = (2, 2, 2)\<rparr>"

definition example_new_kernel :: "(int, unit) kernel" where
  "example_new_kernel = BrookCalcStandardMMForceFieldKernel None \<lparr>platform_log = Some 1\<rparr>"

definition example_kernel :: "nat \<Rightarrow> (int, unit) kernel" where
  "example_kernel n = fst (initialize example_env (example_args n) example_new_kernel)"

definition zero_forces :: "int fstream" where
  "zero_forces a = 0"

definition seven_forces :: "int fstream" where
  "seven_forces a = 7"

text \<open>The force on atom \<open>a\<close> as a caller reads it from a force argument.\<close>

definition force_at :: "'v fstream Stream \<Rightarrow> nat \<Rightarrow> 'v option" where
  "force_at forces a = (case forces of BrookStream f \<Rightarrow> Some (f a) | ForeignStream \<Rightarrow> None)"

section \<open>Properties\<close>

subsection \<open>Auxiliary facts\<close>

lemmas example_defs =
  example_kernel_def example_new_kernel_def example_args_def example_env_def
  example_bonded_new_def example_nonbonded_new_def zero_forces_def
  BrookCalcStandardMMForceFieldKernel_def setLog_def getLog_def initialize_def

lemmas call_defs =
  knbforce_CDLJ4_call_def kMergeFloat3_4_nobranch_call_def kbonded_CDLJ_call_def
  kinvmap_gather3_4_call_def kinvmap_gather3_5_call_def kinvmap_gather5_2_call_def

lemmas role_defs = I_Stream_def J_Stream_def K_Stream_def L_Stream_def

lemma role_sum_valid: "role_sum maps buf a = valid_sum maps buf a"
  unfolding role_sum_def valid_sum_def
proof (induction maps)
  case Nil show ?case by simp
next
  case (Cons m ms)
  then show ?case by (cases "m a") simp_all
qed

lemma gatherPair_valid:
  "gatherPair mapsA bufA mapsB bufB fin a =
     fin a + (valid_sum mapsA bufA a + valid_sum mapsB bufB a)"
  by (simp add: gatherPair_def role_sum_valid)

lemma nonbonded_partial_forceStreams [simp]:
  "nonbonded_partial env (nb\<lparr>forceStreams := fs\<rparr>) p = nonbonded_partial env nb p"
  by (simp add: nonbonded_partial_def)

lemma merge_scalars_forceStreams [simp]:
  "merge_scalars (nb\<lparr>forceStreams := fs\<rparr>) = merge_scalars nb"
  by (simp add: merge_scalars_def)

lemma nonbonded_merge_forceStreams [simp]:
  "nonbonded_merge env (nb\<lparr>forceStreams := fs\<rparr>) s = nonbonded_merge env nb s"
  by (simp add: nonbonded_merge_def)

lemma bonded_partial_bondedForceStreams [simp]:
  "bonded_partial env (b\<lparr>bondedForceStreams := fs\<rparr>) p = bonded_partial env b p"
  by (simp add: bonded_partial_def)

lemma executeForces_handled_4:
  assumes "brookNonBonded k = Some nb" and "brookBonded k = Some b"
    and "inverseMapStreamCount b K_Stream \<le> 4"
  shows "executeForces env k (BrookStream p) (BrookStream f) =
     \<lparr>kernel_after = k\<lparr>brookNonBonded := Some (nb\<lparr>forceStreams := nonbonded_partial env nb p\<rparr>),
                       brookBonded := Some (b\<lparr>bondedForceStreams := bonded_partial env b p\<rparr>)\<rparr>,
      forces_after = BrookStream
         (gather_JL (b\<lparr>bondedForceStreams := bonded_partial env b p\<rparr>)
            (gather_IK_4 (b\<lparr>bondedForceStreams := bonded_partial env b p\<rparr>)
               (nonbonded_merge env nb (nonbonded_partial env nb p)))),
      calls = [knbforce_CDLJ4_call, kMergeFloat3_4_nobranch_call, kbonded_CDLJ_call,
               kinvmap_gather3_4_call, kinvmap_gather5_2_call],
      logged = [], raised = None\<rparr>"
  using assms by (simp add: executeForces_def Let_def)

lemma executeForces_handled_5:
  assumes "brookNonBonded k = Some nb" and "brookBonded k = Some b"
    and "inverseMapStreamCount b K_Stream = 5"
  shows "executeForces env k (BrookStream p) (BrookStream f) =
     \<lparr>kernel_after = k\<lparr>brookNonBonded := Some (nb\<lparr>forceStreams := nonbonded_partial env nb p\<rparr>),
                       brookBonded := Some (b\<lparr>bondedForceStreams := bonded_partial env b p\<rparr>)\<rparr>,
      forces_after = BrookStream
         (gather_JL (b\<lparr>bondedForceStreams := bonded_partial env b p\<rparr>)
            (gather_IK_5 (b\<lparr>bondedForceStreams := bonded_partial env b p\<rparr>)
               (nonbonded_merge env nb (nonbonded_partial env nb p)))),
      calls = [knbforce_CDLJ4_call, kMergeFloat3_4_nobranch_call, kbonded_CDLJ_call,
               kinvmap_gather3_5_call, kinvmap_gather5_2_call],
      logged = [], raised = None\<rparr>"
  using assms by (simp add: executeForces_def Let_def)

lemma executeForces_unhandled:
  assumes "brookNonBonded k = Some nb" and "brookBonded k = Some b"
    and "\<not> inverseMapStreamCount b K_Stream \<le> 4" and "inverseMapStreamCount b K_Stream \<noteq> 5"
  shows "executeForces env k (BrookStream p) (BrookStream f) =
     \<lparr>kernel_after = k\<lparr>brookNonBonded := Some (nb\<lparr>forceStreams := nonbonded_partial env nb p\<rparr>),
                       brookBonded := Some (b\<lparr>bondedForceStreams := bonded_partial env b p\<rparr>)\<rparr>,
      forces_after = BrookStream (nonbonded_merge env nb (nonbonded_partial env nb p)),
      calls = [knbforce_CDLJ4_call, kMergeFloat3_4_nobranch_call, kbonded_CDLJ_call],
      logged = (case bonded_log b of
                  Some h \<Rightarrow> [(h, executeForces_methodName @ '' nkmaps='' @
                                string_of_int (inverseMapStreamCount b K_Stream) @
                                '' -- not handled.'')]
                | None \<Rightarrow> []),
      raised = Some (OpenMMException
                 (executeForces_methodName @ ''K-maps='' @
                  string_of_int (inverseMapStreamCount b K_Stream) @ '' not handled.''))\<rparr>"
  using assms by (simp add: executeForces_def Let_def split: option.split)

lemma executeForces_success_cases:
  assumes "raised (executeForces env k positions forces) = None"
  obtains p f nb b where "positions = BrookStream p" "forces = BrookStream f"
    "brookNonBonded k = Some nb" "brookBonded k = Some b"
    "inverseMapStreamCount b K_Stream \<le> 4 \<or> inverseMapStreamCount b K_Stream = 5"
  using assms
  by (auto simp add: executeForces_def Let_def split: Stream.splits option.splits if_splits)

text \<open>The wrappers of the gathers, unfolded to the kernels and the streams they are handed.\<close>

lemmas gather_defs = gather_IK_4_def gather_IK_5_def gather_JL_def

lemma example_kernel_nonbonded:
  "brookNonBonded (example_kernel n) = Some (the (brookNonBonded (example_kernel n)))"
  by (simp add: example_defs Let_def)

lemma example_kernel_bonded:
  "brookBonded (example_kernel n) = Some (the (brookBonded (example_kernel n)))"
  by (simp add: example_defs Let_def)

lemma example_kernel_count:
  "inverseMapStreamCount (the (brookBonded (example_kernel n))) r =
     (if r = K_Stream then int n else 9)"
  by (simp add: example_defs Let_def)

lemma example_kernel_maps:
  "inverseStreamMapsStreams (the (brookBonded (example_kernel n))) r s a =
     (if (s = 0 \<or> r = K_Stream \<and> s = 4) \<and> a < 2 then Lane a else Sentinel)"
  by (simp add: example_defs Let_def)

lemma example_nonbonded_merge:
  "nonbonded_merge example_env nb (nonbonded_partial example_env nb' p) a = 1"
  by (simp add: nonbonded_merge_def nonbonded_partial_def example_env_def)

lemma example_bonded_partial:
  "bonded_partial example_env b p r l = 10 * int r + 10"
  by (simp add: bonded_partial_def example_env_def)

lemmas example_values =
  example_kernel_count example_kernel_maps example_nonbonded_merge example_bonded_partial
  kinvmap_gather3_4_def kinvmap_gather3_5_def kinvmap_gather5_2_def gatherPair_def role_sum_def
  role_defs force_at_def

lemma example_run_4:
  "raised (executeForces example_env (example_kernel 4) (BrookStream ()) (BrookStream f)) = None"
  by (simp add: executeForces_handled_4 [OF example_kernel_nonbonded example_kernel_bonded]
      example_kernel_count)

lemma example_run_5:
  "raised (executeForces example_env (example_kernel 5) (BrookStream ()) (BrookStream f)) = None"
  by (simp add: executeForces_handled_5 [OF example_kernel_nonbonded example_kernel_bonded]
      example_kernel_count)

subsection \<open>Selection of the (I,K) gather\<close>

text \<open>
  Claim C2. A call of \<^verbatim>\<open>executeForces\<close> that does not fail was given Brook streams and
  found both delegates, with a K stream count that is at most 4 or equal to 5. In the
  first case the only (I,K) gather invoked is \<^verbatim>\<open>kinvmap_gather3_4\<close>, and the force stream
  the call leaves is the (J,L) gather of what \<^verbatim>\<open>kinvmap_gather3_4\<close> makes of the merged
  nonbonded forces, the three I index streams 0 to 2 with the I buffer and the four K
  index streams 0 to 3 with the K buffer. In the second case the same holds of
  \<^verbatim>\<open>kinvmap_gather3_5\<close> with the five K index streams 0 to 4. In the example the fifth K
  stream names a lane for atom 0, which only the second variant adds.
\<close>

theorem executeForces_IK_variant:
  assumes "raised (executeForces env k positions forces) = None"
  shows "\<exists>p f nb b. positions = BrookStream p \<and> forces = BrookStream f \<and>
     brookNonBonded k = Some nb \<and> brookBonded k = Some b \<and>
     (inverseMapStreamCount b K_Stream \<le> 4 \<or> inverseMapStreamCount b K_Stream = 5) \<and>
     (let r = executeForces env k positions forces;
          width = real_of_int (inverseMapStreamWidth b);
          maps = inverseStreamMapsStreams b;
          bF = bonded_partial env b p;
          merged = nonbonded_merge env nb (nonbonded_partial env nb p);
          JL = kinvmap_gather5_2 width
                 (maps J_Stream 0) (maps J_Stream 1) (maps J_Stream 2) (maps J_Stream 3)
                 (maps J_Stream 4) (bF J_Stream)
                 (maps L_Stream 0) (maps L_Stream 1) (bF L_Stream)
      in (inverseMapStreamCount b K_Stream \<le> 4 \<longrightarrow>
            filter IK_gather (calls r) =
              [KernelCall ''kinvmap_gather3_4''
                 [InverseStreamMap I_Stream 0, InverseStreamMap I_Stream 1,
                  InverseStreamMap I_Stream 2, BondedForceStream I_Stream,
                  InverseStreamMap K_Stream 0, InverseStreamMap K_Stream 1,
                  InverseStreamMap K_Stream 2, InverseStreamMap K_Stream 3,
                  BondedForceStream K_Stream, ForceStream, ForceStream]] \<and>
            forces_after r = BrookStream (JL
              (kinvmap_gather3_4 width
                 (maps I_Stream 0) (maps I_Stream 1) (maps I_Stream 2) (bF I_Stream)
                 (maps K_Stream 0) (maps K_Stream 1) (maps K_Stream 2) (maps K_Stream 3)
                 (bF K_Stream) merged))) \<and>
         (inverseMapStreamCount b K_Stream = 5 \<longrightarrow>
            filter IK_gather (calls r) =
              [KernelCall ''kinvmap_gather3_5''
                 [InverseStreamMap I_Stream 0, InverseStreamMap I_Stream 1,
                  InverseStreamMap I_Stream 2, BondedForceStream I_Stream,
                  InverseStreamMap K_Stream 0, InverseStreamMap K_Stream 1,
                  InverseStreamMap K_Stream 2, InverseStreamMap K_Stream 3,
                  InverseStreamMap K_Stream 4, BondedForceStream K_Stream,
                  ForceStream, ForceStream]] \<and>
            forces_after r = BrookStream (JL
              (kinvmap_gather3_5 width
                 (maps I_Stream 0) (maps I_Stream 1) (maps I_Stream 2) (bF I_Stream)
                 (maps K_Stream 0) (maps K_Stream 1) (maps K_Stream 2) (maps K_Stream 3)
                 (maps K_Stream 4) (bF K_Stream) merged))))"
proof -
  from assms obtain p f nb b where s: "positions = BrookStream p" "forces = BrookStream f"
    and nb: "brookNonBonded k = Some nb" and b: "brookBonded k = Some b"
    and c: "inverseMapStreamCount b K_Stream \<le> 4 \<or> inverseMapStreamCount b K_Stream = 5"
    by (rule executeForces_success_cases)
  have "inverseMapStreamCount b K_Stream \<le> 4 \<Longrightarrow> ?thesis"
    by (simp add: s nb b executeForces_handled_4 [OF nb b] call_defs IK_gather_def gather_defs
        Let_def)
  moreover have "inverseMapStreamCount b K_Stream = 5 \<Longrightarrow> ?thesis"
    by (simp add: s nb b executeForces_handled_5 [OF nb b] call_defs IK_gather_def gather_defs
        Let_def)
  ultimately show ?thesis using c by blast
qed

theorem executeForces_IK_variant_witness:
  "map kernel_name (filter IK_gather (calls (executeForces example_env (example_kernel 4)
      (BrookStream ()) (BrookStream seven_forces)))) = [''kinvmap_gather3_4''] \<and>
   force_at (forces_after (executeForces example_env (example_kernel 4)
      (BrookStream ()) (BrookStream seven_forces))) 0 = Some 101 \<and>
   map kernel_name (filter IK_gather (calls (executeForces example_env (example_kernel 5)
      (BrookStream ()) (BrookStream seven_forces)))) = [''kinvmap_gather3_5''] \<and>
   force_at (forces_after (executeForces example_env (example_kernel 5)
      (BrookStream ()) (BrookStream seven_forces))) 0 = Some 131"
proof -
  let ?r4 = "executeForces example_env (example_kernel 4) (BrookStream ()) (BrookStream seven_forces)"
  let ?r5 = "executeForces example_env (example_kernel 5) (BrookStream ()) (BrookStream seven_forces)"
  from executeForces_IK_variant [OF example_run_4 [of seven_forces]]
  obtain p4 f4 nb4 b4 where b4: "brookBonded (example_kernel 4) = Some b4"
    and 4: "inverseMapStreamCount b4 K_Stream \<le> 4 \<longrightarrow>
      map kernel_name (filter IK_gather (calls ?r4)) = [''kinvmap_gather3_4''] \<and>
      force_at (forces_after ?r4) 0 =
        Some (kinvmap_gather5_2 (real_of_int (inverseMapStreamWidth b4))
          (inverseStreamMapsStreams b4 J_Stream 0) (inverseStreamMapsStreams b4 J_Stream 1)
          (inverseStreamMapsStreams b4 J_Stream 2) (inverseStreamMapsStreams b4 J_Stream 3)
          (inverseStreamMapsStreams b4 J_Stream 4) (bonded_partial example_env b4 p4 J_Stream)
          (inverseStreamMapsStreams b4 L_Stream 0) (inverseStreamMapsStreams b4 L_Stream 1)
          (bonded_partial example_env b4 p4 L_Stream)
          (kinvmap_gather3_4 (real_of_int (inverseMapStreamWidth b4))
            (inverseStreamMapsStreams b4 I_Stream 0) (inverseStreamMapsStreams b4 I_Stream 1)
            (inverseStreamMapsStreams b4 I_Stream 2) (bonded_partial example_env b4 p4 I_Stream)
            (inverseStreamMapsStreams b4 K_Stream 0) (inverseStreamMapsStreams b4 K_Stream 1)
            (inverseStreamMapsStreams b4 K_Stream 2) (inverseStreamMapsStreams b4 K_Stream 3)
            (bonded_partial example_env b4 p4 K_Stream)
            (nonbonded_merge example_env nb4 (nonbonded_partial example_env nb4 p4))) 0)"
    by (auto simp add: Let_def force_at_def)
  from b4 have "b4 = the (brookBonded (example_kernel 4))" by simp
  with 4 have r4: "map kernel_name (filter IK_gather (calls ?r4)) = [''kinvmap_gather3_4''] \<and>
      force_at (forces_after ?r4) 0 = Some 101"
    by (simp add: example_values)
  from executeForces_IK_variant [OF example_run_5 [of seven_forces]]
  obtain p5 f5 nb5 b5 where b5: "brookBonded (example_kernel 5) = Some b5"
    and 5: "inverseMapStreamCount b5 K_Stream = 5 \<longrightarrow>
      map kernel_name (filter IK_gather (calls ?r5)) = [''kinvmap_gather3_5''] \<and>
      force_at (forces_after ?r5) 0 =
        Some (kinvmap_gather5_2 (real_of_int (inverseMapStreamWidth b5))
          (inverseStreamMapsStreams b5 J_Stream 0) (inverseStreamMapsStreams b5 J_Stream 1)
          (inverseStreamMapsStreams b5 J_Stream 2) (inverseStreamMapsStreams b5 J_Stream 3)
          (inverseStreamMapsStreams b5 J_Stream 4) (bonded_partial example_env b5 p5 J_Stream)
          (inverseStreamMapsStreams b5 L_Stream 0) (inverseStreamMapsStreams b5 L_Stream 1)
          (bonded_partial example_env b5 p5 L_Stream)
          (kinvmap_gather3_5 (real_of_int (inverseMapStreamWidth b5))
            (inverseStreamMapsStreams b5 I_Stream 0) (inverseStreamMapsStreams b5 I_Stream 1)
            (inverseStreamMapsStreams b5 I_Stream 2) (bonded_partial example_env b5 p5 I_Stream)
            (inverseStreamMapsStreams b5 K_Stream 0) (inverseStreamMapsStreams b5 K_Stream 1)
            (inverseStreamMapsStreams b5 K_Stream 2) (inverseStreamMapsStreams b5 K_Stream 3)
            (inverseStreamMapsStreams b5 K_Stream 4)
            (bonded_partial example_env b5 p5 K_Stream)
            (nonbonded_merge example_env nb5 (nonbonded_partial example_env nb5 p5))) 0)"
    by (auto simp add: Let_def force_at_def)
  from b5 have "b5 = the (brookBonded (example_kernel 5))" by simp
  with 5 have r5: "map kernel_name (filter IK_gather (calls ?r5)) = [''kinvmap_gather3_5''] \<and>
      force_at (forces_after ?r5) 0 = Some 131"
    by (simp add: example_values)
  from r4 r5 show ?thesis by simp
qed


subsection \<open>Order and shape of the bonded gathers\<close>

lemma kinvmap_gather3_4_valid:
  "kinvmap_gather3_4 w i0 i1 i2 fi k0 k1 k2 k3 fk fin a =
     fin a + (valid_sum [i0, i1, i2] fi a + valid_sum [k0, k1, k2, k3] fk a)"
  by (simp add: kinvmap_gather3_4_def gatherPair_valid)

lemma kinvmap_gather3_5_valid:
  "kinvmap_gather3_5 w i0 i1 i2 fi k0 k1 k2 k3 k4 fk fin a =
     fin a + (valid_sum [i0, i1, i2] fi a + valid_sum [k0, k1, k2, k3, k4] fk a)"
  by (simp add: kinvmap_gather3_5_def gatherPair_valid)

lemma kinvmap_gather5_2_valid:
  "kinvmap_gather5_2 w j0 j1 j2 j3 j4 fj l0 l1 fl fin a =
     fin a + (valid_sum [j0, j1, j2, j3, j4] fj a + valid_sum [l0, l1] fl a)"
  by (simp add: kinvmap_gather5_2_def gatherPair_valid)

text \<open>
  Claim C5. A call of \<^verbatim>\<open>executeForces\<close> that does not fail invokes five kernels in a fixed
  order; the bonded gathers among them are an (I,K) gather followed by the (J,L) gather
  \<^verbatim>\<open>kinvmap_gather5_2\<close>, and each of the two is handed the output force stream both as the
  stream it reads and as the stream it writes. The force stream the call leaves is the
  (J,L) gather applied to the stream that the (I,K) gather has written. On every atom it
  holds the merged nonbonded force, to which first the shares of I and K and then the
  shares of J and L have been added, a share being the sum over the valid entries of the
  role's index streams.
\<close>

theorem executeForces_gather_order:
  fixes env :: "('v::monoid_add, 's) env"
  assumes "raised (executeForces env k positions forces) = None"
  shows "\<exists>p f nb b ik. positions = BrookStream p \<and> forces = BrookStream f \<and>
     brookNonBonded k = Some nb \<and> brookBonded k = Some b \<and>
     (let r = executeForces env k positions forces;
          width = real_of_int (inverseMapStreamWidth b);
          maps = inverseStreamMapsStreams b;
          bF = bonded_partial env b p;
          merged = nonbonded_merge env nb (nonbonded_partial env nb p);
          IK = (if inverseMapStreamCount b K_Stream \<le> 4
                then kinvmap_gather3_4 width
                       (maps I_Stream 0) (maps I_Stream 1) (maps I_Stream 2) (bF I_Stream)
                       (maps K_Stream 0) (maps K_Stream 1) (maps K_Stream 2) (maps K_Stream 3)
                       (bF K_Stream) merged
                else kinvmap_gather3_5 width
                       (maps I_Stream 0) (maps I_Stream 1) (maps I_Stream 2) (bF I_Stream)
                       (maps K_Stream 0) (maps K_Stream 1) (maps K_Stream 2) (maps K_Stream 3)
                       (maps K_Stream 4) (bF K_Stream) merged);
          K_maps = (if inverseMapStreamCount b K_Stream \<le> 4
                    then [maps K_Stream 0, maps K_Stream 1, maps K_Stream 2, maps K_Stream 3]
                    else [maps K_Stream 0, maps K_Stream 1, maps K_Stream 2, maps K_Stream 3,
                          maps K_Stream 4])
      in calls r = [knbforce_CDLJ4_call, kMergeFloat3_4_nobranch_call, kbonded_CDLJ_call,
                    ik, kinvmap_gather5_2_call] \<and>
         filter bonded_gather (calls r) = [ik, kinvmap_gather5_2_call] \<and>
         IK_gather ik \<and> kernel_name kinvmap_gather5_2_call = ''kinvmap_gather5_2'' \<and>
         accumulates_into ik ForceStream \<and> destination ik = ForceStream \<and>
         accumulates_into kinvmap_gather5_2_call ForceStream \<and>
         destination kinvmap_gather5_2_call = ForceStream \<and>
         forces_after r = BrookStream
           (kinvmap_gather5_2 width
              (maps J_Stream 0) (maps J_Stream 1) (maps J_Stream 2) (maps J_Stream 3)
              (maps J_Stream 4) (bF J_Stream)
              (maps L_Stream 0) (maps L_Stream 1) (bF L_Stream) IK) \<and>
         (\<forall>a. force_at (forces_after r) a =
            Some (merged a +
                  (valid_sum [maps I_Stream 0, maps I_Stream 1, maps I_Stream 2] (bF I_Stream) a +
                   valid_sum K_maps (bF K_Stream) a) +
                  (valid_sum [maps J_Stream 0, maps J_Stream 1, maps J_Stream 2, maps J_Stream 3,
                              maps J_Stream 4] (bF J_Stream) a +
                   valid_sum [maps L_Stream 0, maps L_Stream 1] (bF L_Stream) a))))"
proof -
  from assms obtain p f nb b where s: "positions = BrookStream p" "forces = BrookStream f"
    and nb: "brookNonBonded k = Some nb" and b: "brookBonded k = Some b"
    and c: "inverseMapStreamCount b K_Stream \<le> 4 \<or> inverseMapStreamCount b K_Stream = 5"
    by (rule executeForces_success_cases)
  have "inverseMapStreamCount b K_Stream \<le> 4 \<Longrightarrow> ?thesis"
    by (rule exI [of _ p], rule exI [of _ f], rule exI [of _ nb], rule exI [of _ b],
        rule exI [of _ kinvmap_gather3_4_call])
       (simp add: s nb b executeForces_handled_4 [OF nb b] call_defs IK_gather_def
        bonded_gather_def accumulates_into_def destination_def gather_defs Let_def force_at_def
        kinvmap_gather5_2_valid kinvmap_gather3_4_valid)
  moreover have "inverseMapStreamCount b K_Stream = 5 \<Longrightarrow> ?thesis"
    by (rule exI [of _ p], rule exI [of _ f], rule exI [of _ nb], rule exI [of _ b],
        rule exI [of _ kinvmap_gather3_5_call])
       (simp add: s nb b executeForces_handled_5 [OF nb b] call_defs IK_gather_def
        bonded_gather_def accumulates_into_def destination_def gather_defs Let_def force_at_def
        kinvmap_gather5_2_valid kinvmap_gather3_5_valid)
  ultimately show ?thesis using c by blast
qed

theorem executeForces_gather_order_witness:
  "map kernel_name (filter bonded_gather (calls (executeForces example_env (example_kernel 4)
      (BrookStream ()) (BrookStream seven_forces)))) = [''kinvmap_gather3_4'', ''kinvmap_gather5_2''] \<and>
   force_at (forces_after (executeForces example_env (example_kernel 4)
      (BrookStream ()) (BrookStream seven_forces))) 1 = Some 101 \<and>
   map kernel_name (filter bonded_gather (calls (executeForces example_env (example_kernel 5)
      (BrookStream ()) (BrookStream seven_forces)))) = [''kinvmap_gather3_5'', ''kinvmap_gather5_2''] \<and>
   force_at (forces_after (executeForces example_env (example_kernel 5)
      (BrookStream ()) (BrookStream seven_forces))) 1 = Some 131"
proof -
  let ?r4 = "executeForces example_env (example_kernel 4) (BrookStream ()) (BrookStream seven_forces)"
  let ?r5 = "executeForces example_env (example_kernel 5) (BrookStream ()) (BrookStream seven_forces)"
  let ?sum = "\<lambda>b p nb (ks::nat list) a.
     nonbonded_merge example_env nb (nonbonded_partial example_env nb p) a +
       (valid_sum (map (inverseStreamMapsStreams b I_Stream) [0, 1, 2])
          (bonded_partial example_env b p I_Stream) a +
        valid_sum (map (inverseStreamMapsStreams b K_Stream) ks)
          (bonded_partial example_env b p K_Stream) a) +
       (valid_sum (map (inverseStreamMapsStreams b J_Stream) [0, 1, 2, 3, 4])
          (bonded_partial example_env b p J_Stream) a +
        valid_sum (map (inverseStreamMapsStreams b L_Stream) [0, 1])
          (bonded_partial example_env b p L_Stream) a)"
  from executeForces_gather_order [OF example_run_4 [of seven_forces]]
  obtain p4 f4 nb4 b4 ik4 where b4: "brookBonded (example_kernel 4) = Some b4"
    and f4: "filter bonded_gather (calls ?r4) = [ik4, kinvmap_gather5_2_call]"
    and c4: "calls ?r4 = [knbforce_CDLJ4_call, kMergeFloat3_4_nobranch_call, kbonded_CDLJ_call,
               ik4, kinvmap_gather5_2_call]"
    and v4: "force_at (forces_after ?r4) 1 =
       Some (?sum b4 p4 nb4 (if inverseMapStreamCount b4 K_Stream \<le> 4 then [0, 1, 2, 3]
                              else [0, 1, 2, 3, 4]) 1)"
    by (auto simp add: Let_def)
  have "calls ?r4 ! 3 = kinvmap_gather3_4_call"
    by (simp add: executeForces_handled_4 [OF example_kernel_nonbonded example_kernel_bonded]
        example_kernel_count)
  then have "ik4 = kinvmap_gather3_4_call"
    unfolding c4 by simp
  with f4 have l4: "filter bonded_gather (calls ?r4) = [kinvmap_gather3_4_call, kinvmap_gather5_2_call]"
    by (simp only:)
  from b4 have "b4 = the (brookBonded (example_kernel 4))" by simp
  with v4 have r4: "force_at (forces_after ?r4) 1 = Some 101"
    by (simp add: example_values valid_sum_def)
  from executeForces_gather_order [OF example_run_5 [of seven_forces]]
  obtain p5 f5 nb5 b5 ik5 where b5: "brookBonded (example_kernel 5) = Some b5"
    and f5: "filter bonded_gather (calls ?r5) = [ik5, kinvmap_gather5_2_call]"
    and c5: "calls ?r5 = [knbforce_CDLJ4_call, kMergeFloat3_4_nobranch_call, kbonded_CDLJ_call,
               ik5, kinvmap_gather5_2_call]"
    and v5: "force_at (forces_after ?r5) 1 =
       Some (?sum b5 p5 nb5 (if inverseMapStreamCount b5 K_Stream \<le> 4 then [0, 1, 2, 3]
                              else [0, 1, 2, 3, 4]) 1)"
    by (auto simp add: Let_def)
  have "calls ?r5 ! 3 = kinvmap_gather3_5_call"
    by (simp add: executeForces_handled_5 [OF example_kernel_nonbonded example_kernel_bonded]
        example_kernel_count)
  then have "ik5 = kinvmap_gather3_5_call"
    unfolding c5 by simp
  with f5 have l5: "filter bonded_gather (calls ?r5) = [kinvmap_gather3_5_call, kinvmap_gather5_2_call]"
    by (simp only:)
  from b5 have "b5 = the (brookBonded (example_kernel 5))" by simp
  with v5 have r5: "force_at (forces_after ?r5) 1 = Some 131"
    by (simp add: example_values valid_sum_def)
  show ?thesis unfolding l4 l5 using r4 r5 by (simp add: call_defs)
qed


text \<open>
  Claim C6. With Brook streams and both delegates present, \<^verbatim>\<open>executeForces\<close> succeeds
  exactly when the K stream count is at most 4 or equal to 5: the stream counts that the
  delegate reports for J and L are not consulted. Whenever it succeeds, the last kernel
  invoked is \<^verbatim>\<open>kinvmap_gather5_2\<close>, directly after the (I,K) gather and with no other gather
  before that, and the force stream the call leaves is \<^verbatim>\<open>kinvmap_gather5_2\<close> applied to the
  five J index streams 0 to 4 with the J buffer, the two L index streams 0 and 1 with the
  L buffer, and the stream the (I,K) gather has written. In the example the delegate
  reports nine streams for J and for L.
\<close>

theorem executeForces_JL_fixed_shape:
  fixes env :: "('v::monoid_add, 's) env"
  assumes "brookNonBonded k = Some nb" and "brookBonded k = Some b"
  shows "let r = executeForces env k (BrookStream p) (BrookStream f);
             width = real_of_int (inverseMapStreamWidth b);
             maps = inverseStreamMapsStreams b;
             bF = bonded_partial env b p;
             merged = nonbonded_merge env nb (nonbonded_partial env nb p);
             IK = (if inverseMapStreamCount b K_Stream \<le> 4
                   then kinvmap_gather3_4 width
                          (maps I_Stream 0) (maps I_Stream 1) (maps I_Stream 2) (bF I_Stream)
                          (maps K_Stream 0) (maps K_Stream 1) (maps K_Stream 2) (maps K_Stream 3)
                          (bF K_Stream) merged
                   else kinvmap_gather3_5 width
                          (maps I_Stream 0) (maps I_Stream 1) (maps I_Stream 2) (bF I_Stream)
                          (maps K_Stream 0) (maps K_Stream 1) (maps K_Stream 2) (maps K_Stream 3)
                          (maps K_Stream 4) (bF K_Stream) merged)
         in (raised r = None) =
              (inverseMapStreamCount b K_Stream \<le> 4 \<or> inverseMapStreamCount b K_Stream = 5) \<and>
            (raised r = None \<longrightarrow>
               (\<exists>pre ik. calls r =
                  pre @ [ik, KernelCall ''kinvmap_gather5_2''
                     [InverseStreamMap J_Stream 0, InverseStreamMap J_Stream 1,
                      InverseStreamMap J_Stream 2, InverseStreamMap J_Stream 3,
                      InverseStreamMap J_Stream 4, BondedForceStream J_Stream,
                      InverseStreamMap L_Stream 0, InverseStreamMap L_Stream 1,
                      BondedForceStream L_Stream, ForceStream, ForceStream]] \<and>
                  IK_gather ik \<and> filter bonded_gather pre = []) \<and>
               forces_after r = BrookStream
                 (kinvmap_gather5_2 width
                    (maps J_Stream 0) (maps J_Stream 1) (maps J_Stream 2) (maps J_Stream 3)
                    (maps J_Stream 4) (bF J_Stream)
                    (maps L_Stream 0) (maps L_Stream 1) (bF L_Stream) IK))"
proof -
  let ?pre = "[knbforce_CDLJ4_call, kMergeFloat3_4_nobranch_call, kbonded_CDLJ_call]"
  have pre: "\<not> bonded_gather knbforce_CDLJ4_call"
    "\<not> bonded_gather kMergeFloat3_4_nobranch_call" "\<not> bonded_gather kbonded_CDLJ_call"
    by (simp_all add: call_defs bonded_gather_def IK_gather_def)
  consider (four) "inverseMapStreamCount b K_Stream \<le> 4"
    | (five) "inverseMapStreamCount b K_Stream = 5"
    | (other) "\<not> inverseMapStreamCount b K_Stream \<le> 4" "inverseMapStreamCount b K_Stream \<noteq> 5"
    by blast
  then show ?thesis
  proof cases
    case four
    have "\<exists>pre ik. ?pre @ [kinvmap_gather3_4_call, kinvmap_gather5_2_call] =
        pre @ [ik, kinvmap_gather5_2_call] \<and> IK_gather ik \<and> filter bonded_gather pre = []"
      by (rule exI [of _ ?pre], rule exI [of _ kinvmap_gather3_4_call])
         (simp add: pre, simp add: kinvmap_gather3_4_call_def IK_gather_def)
    with four show ?thesis
      unfolding executeForces_handled_4 [OF assms four]
      by (simp add: Let_def gather_defs kinvmap_gather5_2_call_def)
  next
    case five
    have "\<exists>pre ik. ?pre @ [kinvmap_gather3_5_call, kinvmap_gather5_2_call] =
        pre @ [ik, kinvmap_gather5_2_call] \<and> IK_gather ik \<and> filter bonded_gather pre = []"
      by (rule exI [of _ ?pre], rule exI [of _ kinvmap_gather3_5_call])
         (simp add: pre, simp add: kinvmap_gather3_5_call_def IK_gather_def)
    with five show ?thesis
      unfolding executeForces_handled_5 [OF assms five]
      by (simp add: Let_def gather_defs kinvmap_gather5_2_call_def)
  next
    case other
    then show ?thesis
      unfolding executeForces_unhandled [OF assms other]
      by (simp add: Let_def)
  qed
qed

theorem executeForces_JL_fixed_shape_witness:
  "inverseMapStreamCount (the (brookBonded (example_kernel 4))) J_Stream = 9 \<and>
   inverseMapStreamCount (the (brookBonded (example_kernel 4))) L_Stream = 9 \<and>
   raised (executeForces example_env (example_kernel 4) (BrookStream ())
      (BrookStream seven_forces)) = None \<and>
   last (calls (executeForces example_env (example_kernel 4) (BrookStream ())
      (BrookStream seven_forces))) = kinvmap_gather5_2_call \<and>
   force_at (forces_after (executeForces example_env (example_kernel 4) (BrookStream ())
      (BrookStream seven_forces))) 0 = Some 101 \<and>
   raised (executeForces example_env (example_kernel 5) (BrookStream ())
      (BrookStream seven_forces)) = None \<and>
   last (calls (executeForces example_env (example_kernel 5) (BrookStream ())
      (BrookStream seven_forces))) = kinvmap_gather5_2_call \<and>
   force_at (forces_after (executeForces example_env (example_kernel 5) (BrookStream ())
      (BrookStream seven_forces))) 0 = Some 131 \<and>
   raised (executeForces example_env (example_kernel 6) (BrookStream ())
      (BrookStream seven_forces)) \<noteq> None"
  using executeForces_JL_fixed_shape [OF example_kernel_nonbonded example_kernel_bonded,
          of example_env 4 "()" seven_forces]
        executeForces_JL_fixed_shape [OF example_kernel_nonbonded example_kernel_bonded,
          of example_env 5 "()" seven_forces]
        executeForces_JL_fixed_shape [OF example_kernel_nonbonded example_kernel_bonded,
          of example_env 6 "()" seven_forces]
  by (auto simp add: Let_def example_values kinvmap_gather5_2_call_def)

subsection \<open>The force found on entry\<close>



lemma initialize_state:
  "fst (initialize env a k) =
     k\<lparr>numberOfAtoms := length (nonbondedParameters a),
       brookBonded := Some (BrookBonded_setup env (length (nonbondedParameters a))
          (bondIndices a) (bondParameters a) (angleIndices a) (angleParameters a)
          (periodicTorsionIndices a) (periodicTorsionParameters a)
          (rbTorsionIndices a) (rbTorsionParameters a)
          (bonded14Indices a) (nonbondedParameters a) (lj14Scale a) (coulomb14Scale a)
          (platform k) ((BrookBonded_new env)\<lparr>bonded_log := log k\<rparr>)),
       brookNonBonded := Some (BrookNonBonded_setup env (length (nonbondedParameters a))
          (nonbondedParameters a) (exclusions a) (platform k)
          ((BrookNonBonded_new env)\<lparr>nonbonded_log := log k\<rparr>))\<rparr>"
  by (simp add: initialize_def Let_def getLog_def)

lemma initialize_heap_effects:
  "filter heap_effect (snd (initialize env a k)) =
     (case brookBonded k of Some old \<Rightarrow> [Delete_BrookBonded old] | None \<Rightarrow> []) @
     [New_BrookBonded] @
     (case brookNonBonded k of Some old \<Rightarrow> [Delete_BrookNonBonded old] | None \<Rightarrow> []) @
     [New_BrookNonBonded]"
  by (simp add: initialize_def Let_def getLog_def split: option.split)

lemma initialize_setup_effects:
  "filter setup_effect (snd (initialize env a k)) =
     [Setup_BrookBonded (length (nonbondedParameters a)),
      Setup_BrookNonBonded (length (nonbondedParameters a))]"
  by (simp add: initialize_def Let_def getLog_def split: option.split)

lemma executeForces_rerun:
  fixes env :: "('v::monoid_add, 's) env"
  shows "executeForces env (kernel_after (executeForces env k positions forces)) positions forces =
     executeForces env k positions forces"
proof (cases positions)
  case ForeignStream
  then show ?thesis by (simp add: executeForces_def)
next
  case (BrookStream p)
  note p = this
  show ?thesis
  proof (cases forces)
    case ForeignStream
    then show ?thesis by (simp add: executeForces_def p)
  next
    case (BrookStream f)
    note f = this
    show ?thesis
    proof (cases "brookNonBonded k")
      case None
      then show ?thesis by (simp add: executeForces_def p f)
    next
      case (Some nb)
      note nb = this
      show ?thesis
      proof (cases "brookBonded k")
        case None
        then show ?thesis by (simp add: executeForces_def p f nb Let_def)
      next
        case (Some b)
        note b = this
        let ?k' = "k\<lparr>brookNonBonded := Some (nb\<lparr>forceStreams := nonbonded_partial env nb p\<rparr>),
                     brookBonded := Some (b\<lparr>bondedForceStreams := bonded_partial env b p\<rparr>)\<rparr>"
        have nb': "brookNonBonded ?k' = Some (nb\<lparr>forceStreams := nonbonded_partial env nb p\<rparr>)"
          and b': "brookBonded ?k' = Some (b\<lparr>bondedForceStreams := bonded_partial env b p\<rparr>)"
          by simp_all
        consider (four) "inverseMapStreamCount b K_Stream \<le> 4"
          | (five) "inverseMapStreamCount b K_Stream = 5"
          | (other) "\<not> inverseMapStreamCount b K_Stream \<le> 4" "inverseMapStreamCount b K_Stream \<noteq> 5"
          by blast
        then show ?thesis
        proof cases
          case four
          then have four': "inverseMapStreamCount (b\<lparr>bondedForceStreams := bonded_partial env b p\<rparr>) K_Stream \<le> 4"
            by simp
          show ?thesis
            unfolding p f executeForces_handled_4 [OF nb b four]
            by (simp add: executeForces_handled_4 [OF nb' b' four'])
        next
          case five
          then have five': "inverseMapStreamCount (b\<lparr>bondedForceStreams := bonded_partial env b p\<rparr>) K_Stream = 5"
            by simp
          show ?thesis
            unfolding p f executeForces_handled_5 [OF nb b five]
            by (simp add: executeForces_handled_5 [OF nb' b' five'])
        next
          case other
          then have other': "\<not> inverseMapStreamCount (b\<lparr>bondedForceStreams := bonded_partial env b p\<rparr>) K_Stream \<le> 4"
            "inverseMapStreamCount (b\<lparr>bondedForceStreams := bonded_partial env b p\<rparr>) K_Stream \<noteq> 5"
            by simp_all
          show ?thesis
            unfolding p f executeForces_unhandled [OF nb b other]
            by (simp add: executeForces_unhandled [OF nb' b' other'] split: option.split)
        qed
      qed
    qed
  qed
qed

subsection \<open>The unhandled fan-in\<close>

text \<open>
  Claim C1, as the source has it. When both delegates are present and the number of K
  inverse-map streams is neither at most 4 nor equal to 5, \<^verbatim>\<open>executeForces\<close> throws the
  \<^verbatim>\<open>OpenMMException\<close> whose message carries that number. By then the nonbonded kernel,
  its merge into the force stream and the bonded kernel have run: exactly these three
  kernels were invoked, no bonded gather among them, and the force argument holds the
  result of the nonbonded merge.
\<close>

theorem executeForces_unhandled_K_count:
  assumes "brookNonBonded k = Some nb" and "brookBonded k = Some b"
    and "\<not> inverseMapStreamCount b K_Stream \<le> 4"
    and "inverseMapStreamCount b K_Stream \<noteq> 5"
  shows "let r = executeForces env k (BrookStream positionStream) (BrookStream forceStream) in
           raised r = Some (OpenMMException
              (''BrookCalcStandardMMForceFieldKernel::executeForcesK-maps='' @
               string_of_int (inverseMapStreamCount b K_Stream) @ '' not handled.'')) \<and>
           calls r = [knbforce_CDLJ4_call, kMergeFloat3_4_nobranch_call, kbonded_CDLJ_call] \<and>
           filter bonded_gather (calls r) = [] \<and>
           forces_after r =
             BrookStream (nonbonded_merge env nb (nonbonded_partial env nb positionStream))"
  unfolding executeForces_unhandled [OF assms]
  by (simp add: executeForces_methodName_def knbforce_CDLJ4_call_def
      kMergeFloat3_4_nobranch_call_def kbonded_CDLJ_call_def bonded_gather_def IK_gather_def)

theorem executeForces_unhandled_K_count_witness:
  "(let r = executeForces example_env (example_kernel 6) (BrookStream ()) (BrookStream zero_forces) in
      raised r = Some (OpenMMException
         ''BrookCalcStandardMMForceFieldKernel::executeForcesK-maps=6 not handled.'') \<and>
      calls r = [knbforce_CDLJ4_call, kMergeFloat3_4_nobranch_call, kbonded_CDLJ_call] \<and>
      filter bonded_gather (calls r) = [] \<and>
      force_at (forces_after r) 0 = Some 1)"
proof -
  have c1: "\<not> inverseMapStreamCount (the (brookBonded (example_kernel 6))) K_Stream \<le> 4"
    and c2: "inverseMapStreamCount (the (brookBonded (example_kernel 6))) K_Stream \<noteq> 5"
    by (simp_all add: example_kernel_count)
  show ?thesis
    using executeForces_unhandled_K_count [OF example_kernel_nonbonded example_kernel_bonded c1 c2,
        of example_env "()" zero_forces]
    by (simp add: Let_def example_kernel_count string_of_int_def digit_char_def force_at_def
        example_nonbonded_merge call_defs bonded_gather_def IK_gather_def)
qed

text \<open>
  Claim C1 as stated has the failure raised before the output force array is mutated.
  In the small configuration with six K streams the call throws, and the force on atom 0,
  which was 0 on entry, is 1 when the exception leaves the call: the merge kernel, whose
  destination is the force stream, is among the kernels already invoked.
\<close>

theorem unhandled_K_count_after_force_write:
  "raised (executeForces example_env (example_kernel 6) (BrookStream ()) (BrookStream zero_forces)) =
     Some (OpenMMException ''BrookCalcStandardMMForceFieldKernel::executeForcesK-maps=6 not handled.'') \<and>
   force_at (BrookStream zero_forces) 0 = Some 0 \<and>
   force_at (forces_after (executeForces example_env (example_kernel 6) (BrookStream ())
      (BrookStream zero_forces))) 0 = Some 1 \<and>
   forces_after (executeForces example_env (example_kernel 6) (BrookStream ())
      (BrookStream zero_forces)) \<noteq> BrookStream zero_forces \<and>
   kMergeFloat3_4_nobranch_call \<in> set (calls (executeForces example_env (example_kernel 6)
      (BrookStream ()) (BrookStream zero_forces))) \<and>
   destination kMergeFloat3_4_nobranch_call = ForceStream"
proof -
  let ?r = "executeForces example_env (example_kernel 6) (BrookStream ()) (BrookStream zero_forces)"
  have c1: "\<not> inverseMapStreamCount (the (brookBonded (example_kernel 6))) K_Stream \<le> 4"
    and c2: "inverseMapStreamCount (the (brookBonded (example_kernel 6))) K_Stream \<noteq> 5"
    by (simp_all add: example_kernel_count)
  note run = executeForces_unhandled [OF example_kernel_nonbonded example_kernel_bonded c1 c2,
      of example_env "()" zero_forces]
  have 1: "raised ?r = Some (OpenMMException
      ''BrookCalcStandardMMForceFieldKernel::executeForcesK-maps=6 not handled.'')"
    unfolding run
    by (simp add: example_kernel_count string_of_int_def digit_char_def executeForces_methodName_def)
  have 2: "force_at (forces_after ?r) 0 = Some 1"
    unfolding run by (simp add: force_at_def example_nonbonded_merge)
  have 3: "force_at (BrookStream zero_forces) 0 = Some 0"
    by (simp add: force_at_def zero_forces_def)
  from 2 3 have 4: "forces_after ?r \<noteq> BrookStream zero_forces"
    by (metis option.inject zero_neq_one)
  have 5: "kMergeFloat3_4_nobranch_call \<in> set (calls ?r)"
    unfolding run by simp
  have 6: "destination kMergeFloat3_4_nobranch_call = ForceStream"
    by (simp add: destination_def kMergeFloat3_4_nobranch_call_def)
  from 1 2 3 4 5 6 show ?thesis by simp
qed

subsection \<open>executeEnergy\<close>

text \<open>
  Claim C3. For every kernel state and every positions argument, \<^verbatim>\<open>executeEnergy\<close>
  returns zero.
\<close>

theorem executeEnergy_zero: "executeEnergy k positions = 0"
  by (simp add: executeEnergy_def)

subsection \<open>Running a step twice\<close>

text \<open>
  Claim C8. Take the kernel state that an \<^verbatim>\<open>initialize\<close> call produces, run \<^verbatim>\<open>executeForces\<close>
  on it, and run it again on the state the first run leaves behind, with the same
  positions and the force argument reset to the same baseline. The second run leaves the
  same forces, ends the same way, invokes the same kernels and leaves the same kernel
  state as the first. The partial buffers that the first run has filled do not influence
  the second: the evaluators overwrite them.
\<close>

theorem executeForces_deterministic:
  fixes env :: "('v::monoid_add, 's) env"
  shows "let k = fst (initialize env a k0);
       r1 = executeForces env k positions baseline;
       r2 = executeForces env (kernel_after r1) positions baseline
   in forces_after r2 = forces_after r1 \<and> raised r2 = raised r1 \<and> calls r2 = calls r1 \<and>
      kernel_after r2 = kernel_after r1"
  by (simp add: Let_def executeForces_rerun)

subsection \<open>initialize\<close>

text \<open>
  Claim C7. After a first \<^verbatim>\<open>initialize\<close> both delegate pointers are set. A second call
  deletes the bonded delegate of the first call before it constructs the new bonded
  delegate, and deletes the nonbonded delegate of the first call before it constructs the
  new nonbonded delegate: these four are its heap effects, in this order, so neither
  object of the first call outlives the second. The kernel state after the second call
  is the state that the second call alone produces from the kernel as it was before the
  first: nothing of the first call's arguments remains.
\<close>

theorem initialize_twice:
  "let k1 = fst (initialize env a1 k);
       r2 = initialize env a2 k1
   in brookBonded k1 \<noteq> None \<and> brookNonBonded k1 \<noteq> None \<and>
      filter heap_effect (snd r2) =
        [Delete_BrookBonded (the (brookBonded k1)), New_BrookBonded,
         Delete_BrookNonBonded (the (brookNonBonded k1)), New_BrookNonBonded] \<and>
      fst r2 = fst (initialize env a2 k)"
  by (simp add: Let_def initialize_heap_effects) (simp add: initialize_state)

text \<open>
  Claim C9. \<^verbatim>\<open>initialize\<close> reads neither \<^verbatim>\<open>nonbondedMethod\<close> nor \<^verbatim>\<open>nonbondedCutoff\<close> nor
  \<^verbatim>\<open>periodicBoxSize\<close>: replacing the three by any other values changes neither the
  kernel state it produces nor its effects, and so no later \<^verbatim>\<open>executeForces\<close> or
  \<^verbatim>\<open>executeEnergy\<close> result.
\<close>

theorem initialize_ignores_nonbonded_method:
  "initialize env (a\<lparr>nonbondedMethod := m, nonbondedCutoff := c, periodicBoxSize := box\<rparr>) k =
     initialize env a k \<and>
   executeForces env
     (fst (initialize env (a\<lparr>nonbondedMethod := m, nonbondedCutoff := c, periodicBoxSize := box\<rparr>) k))
     positions forces =
     executeForces env (fst (initialize env a k)) positions forces \<and>
   executeEnergy
     (fst (initialize env (a\<lparr>nonbondedMethod := m, nonbondedCutoff := c, periodicBoxSize := box\<rparr>) k))
     positions =
     executeEnergy (fst (initialize env a k)) positions"
proof -
  have "initialize env (a\<lparr>nonbondedMethod := m, nonbondedCutoff := c, periodicBoxSize := box\<rparr>) k =
     initialize env a k"
    by (simp add: initialize_def)
  then show ?thesis by simp
qed

text \<open>
  Claim C10. After \<^verbatim>\<open>initialize\<close> the atom count of the kernel is the length of the
  nonbonded parameter list. The bonded delegate is what \<^verbatim>\<open>BrookBonded::setup\<close> makes of a
  new object when it is given that length as its atom count, and the nonbonded delegate
  is what \<^verbatim>\<open>BrookNonBonded::setup\<close> makes of a new object when it is given that length;
  these are the two \<^verbatim>\<open>setup\<close> calls of the trace. Replacing the bond, angle, torsion and
  1-4 index lists by any others changes neither the count nor the nonbonded delegate.
\<close>

theorem initialize_atom_count:
  "numberOfAtoms (fst (initialize env a k)) = length (nonbondedParameters a) \<and>
   brookBonded (fst (initialize env a k)) =
     Some (BrookBonded_setup env (length (nonbondedParameters a))
        (bondIndices a) (bondParameters a) (angleIndices a) (angleParameters a)
        (periodicTorsionIndices a) (periodicTorsionParameters a)
        (rbTorsionIndices a) (rbTorsionParameters a)
        (bonded14Indices a) (nonbondedParameters a) (lj14Scale a) (coulomb14Scale a)
        (platform k) ((BrookBonded_new env)\<lparr>bonded_log := log k\<rparr>)) \<and>
   brookNonBonded (fst (initialize env a k)) =
     Some (BrookNonBonded_setup env (length (nonbondedParameters a))
        (nonbondedParameters a) (exclusions a) (platform k)
        ((BrookNonBonded_new env)\<lparr>nonbonded_log := log k\<rparr>)) \<and>
   filter setup_effect (snd (initialize env a k)) =
     [Setup_BrookBonded (length (nonbondedParameters a)),
      Setup_BrookNonBonded (length (nonbondedParameters a))] \<and>
   numberOfAtoms (fst (initialize env
      (a\<lparr>bondIndices := bi, angleIndices := ai, periodicTorsionIndices := ti,
         rbTorsionIndices := ri, bonded14Indices := b14\<rparr>) k)) =
     numberOfAtoms (fst (initialize env a k)) \<and>
   brookNonBonded (fst (initialize env
      (a\<lparr>bondIndices := bi, angleIndices := ai, periodicTorsionIndices := ti,
         rbTorsionIndices := ri, bonded14Indices := b14\<rparr>) k)) =
     brookNonBonded (fst (initialize env a k))"
  by (simp add: initialize_state initialize_setup_effects)

end
